theory Spec2Isabelle
  imports Main
begin

section \<open>The S3 upload script \<^verbatim>\<open>scripts/s3_upload.py\<close>\<close>

text \<open>
  The script reads a \<^verbatim>\<open>KEY=VALUE\<close> file, resolves five configuration keys, builds an S3
  client and makes one call on it (\<^verbatim>\<open>upload_file\<close> or \<^verbatim>\<open>head_bucket\<close>). The model below
  follows the source function by function. Text is a \<^typ>\<open>string\<close> whose characters are read
  as the code points below 256; everything the script does to the outside world (printing,
  building the client, calling it) is recorded, in order, as a list of events, and a Python
  function returns \<open>Inr\<close> of its value or \<open>Inl\<close> of the exception that leaves it.
\<close>

subsection \<open>String methods of Python used by the script\<close>

text \<open>
  \<^verbatim>\<open>str.isspace\<close> on one character: the code points below 256 that Python treats as
  white space (tab, line feed, vertical tab, form feed, carriage return, the four
  separators \<^verbatim>\<open>0x1C\<close> to \<^verbatim>\<open>0x1F\<close>, space, next line, no-break space).
\<close>

definition isspace :: "char \<Rightarrow> bool" where
  "isspace c = (c \<in> set [CHR 0x09, CHR 0x0A, CHR 0x0B, CHR 0x0C, CHR 0x0D,
                           CHR 0x1C, CHR 0x1D, CHR 0x1E, CHR 0x1F, CHR 0x20,
                           CHR 0x85, CHR 0xA0])"

definition lstrip :: "string \<Rightarrow> string" where
  "lstrip s = dropWhile isspace s"

definition rstrip :: "string \<Rightarrow> string" where
  "rstrip s = rev (dropWhile isspace (rev s))"

text \<open>\<^verbatim>\<open>s.strip()\<close>: white space removed at both ends.\<close>

definition strip :: "string \<Rightarrow> string" where
  "strip s = rstrip (lstrip s)"

text \<open>\<^verbatim>\<open>s.startswith(p)\<close>\<close>

definition startswith :: "string \<Rightarrow> string \<Rightarrow> bool" where
  "startswith s p = (take (length p) s = p)"

text \<open>\<^verbatim>\<open>s.find(c)\<close> for a one-character \<open>c\<close>: the first index of \<open>c\<close>, \<open>None\<close> for Python's -1.\<close>

fun find_char :: "char \<Rightarrow> string \<Rightarrow> nat option" where
  "find_char c [] = None"
| "find_char c (x # xs) = (if x = c then Some 0 else map_option Suc (find_char c xs))"

text \<open>
  \<^verbatim>\<open>s.partition(c)\<close> for a one-character separator: the text before the first occurrence,
  the separator, the text after it; \<^verbatim>\<open>(s, '', '')\<close> when the separator does not occur.
\<close>

definition str_partition :: "string \<Rightarrow> char \<Rightarrow> string \<times> string \<times> string" where
  "str_partition s c =
     (case find_char c s of
        None \<Rightarrow> (s, [], [])
      | Some i \<Rightarrow> (take i s, [c], drop (Suc i) s))"

text \<open>\<^verbatim>\<open>s.split(c)\<close> for a one-character separator (empty fields are kept).\<close>

fun str_split :: "char \<Rightarrow> string \<Rightarrow> string list" where
  "str_split c [] = [[]]"
| "str_split c (x # xs) =
     (if x = c then [] # str_split c xs
      else (case str_split c xs of
              [] \<Rightarrow> [[x]]
            | f # fs \<Rightarrow> (x # f) # fs))"

subsection \<open>Reading a text file line by line\<close>

text \<open>
  \<^verbatim>\<open>open(path)\<close> reads in text mode with universal newlines: \<^verbatim>\<open>\r\n\<close> and a lone \<^verbatim>\<open>\r\<close>
  both arrive as \<^verbatim>\<open>\n\<close>. The flag says that the previous character was a carriage return.
\<close>

fun translate_newlines :: "bool \<Rightarrow> string \<Rightarrow> string" where
  "translate_newlines pending_cr [] = []"
| "translate_newlines pending_cr (c # cs) =
     (if c = CHR 0x0D then CHR 0x0A # translate_newlines True cs
      else if c = CHR 0x0A \<and> pending_cr then translate_newlines False cs
      else c # translate_newlines False cs)"

text \<open>\<^verbatim>\<open>for line in f\<close>: each line keeps its line feed; a last line may lack one.\<close>

fun split_lines :: "string \<Rightarrow> string list" where
  "split_lines [] = []"
| "split_lines (c # cs) =
     (if c = CHR 0x0A then [c] # split_lines cs
      else (case split_lines cs of
              [] \<Rightarrow> [[c]]
            | l # ls \<Rightarrow> (c # l) # ls))"

definition file_lines :: "string \<Rightarrow> string list" where
  "file_lines text = split_lines (translate_newlines False text)"

subsection \<open>\<^verbatim>\<open>load_env_file\<close>\<close>

type_synonym dict = "string \<rightharpoonup> string"

text \<open>
  The file system, as far as the script looks at it: the text of each existing file
  (\<^verbatim>\<open>os.path.exists\<close> is \<open>fs path \<noteq> None\<close>). A path that exists is taken to be a text
  file that can be opened and decoded, so \<^verbatim>\<open>open\<close> and the reading of lines do not raise.
\<close>

type_synonym filesystem = "string \<rightharpoonup> string"

text \<open>The body of the loop over the lines, lines 21 to 24.\<close>

definition env_line :: "string \<Rightarrow> dict \<Rightarrow> dict" where
  "env_line line0 env_vars =
     (let line = strip line0 in
      if line \<noteq> [] \<and> \<not> startswith line ''#'' then
        (case str_partition line CHR ''='' of
           (key, _, val) \<Rightarrow> env_vars(strip key \<mapsto> strip val))
      else env_vars)"

definition load_env_file :: "filesystem \<Rightarrow> string \<Rightarrow> dict" where
  "load_env_file fs env_path =
     (case fs env_path of
        None \<Rightarrow> Map.empty
      | Some text \<Rightarrow> fold env_line (file_lines text) Map.empty)"

definition default_env_path :: string where
  "default_env_path = ''/opt/notes/.env''"

subsection \<open>Truth values and dictionary look-ups\<close>

text \<open>
  \<^verbatim>\<open>env.get(k)\<close> and \<^verbatim>\<open>os.getenv(k)\<close> give a string or \<^verbatim>\<open>None\<close>. Python takes \<^verbatim>\<open>None\<close> and
  the empty string for false, every other string for true.
\<close>

definition truthy :: "string option \<Rightarrow> bool" where
  "truthy v = (case v of None \<Rightarrow> False | Some s \<Rightarrow> s \<noteq> [])"

text \<open>\<^verbatim>\<open>a or b\<close>: \<open>a\<close> when it is true, else \<open>b\<close>.\<close>

definition py_or :: "string option \<Rightarrow> string option \<Rightarrow> string option" where
  "py_or a b = (if truthy a then a else b)"

text \<open>\<^verbatim>\<open>d.get(k, default)\<close>\<close>

definition get_default :: "dict \<Rightarrow> string \<Rightarrow> string \<Rightarrow> string" where
  "get_default d k dflt = (case d k of None \<Rightarrow> dflt | Some v \<Rightarrow> v)"

subsection \<open>\<^verbatim>\<open>Path(file_path).name\<close>\<close>

text \<open>
  A POSIX path is cut at every \<^verbatim>\<open>/\<close>; empty components and \<^verbatim>\<open>.\<close> components are
  dropped; the name is the last component left, or the empty string when none is.
\<close>

definition path_name :: "string \<Rightarrow> string" where
  "path_name p =
     (let parts = filter (\<lambda>x. x \<noteq> [] \<and> x \<noteq> ''.'') (str_split CHR ''/'' p)
      in if parts = [] then [] else last parts)"

subsection \<open>Exceptions, events and the outside world\<close>

text \<open>
  The exception classes the script tells apart, each with the text \<^verbatim>\<open>str(e)\<close> gives.
  A \<open>ClientError\<close> also carries the \<^verbatim>\<open>'Error'\<close> entry of its \<^verbatim>\<open>response\<close> dictionary
  (\<open>None\<close> when the response has no such entry). \<open>OtherException\<close> is any other subclass
  of \<^verbatim>\<open>Exception\<close>.
\<close>

datatype exc =
    FileNotFoundError string
  | NoCredentialsError string
  | ClientError "(string \<times> string) list option" string
  | OtherException string

fun exc_str :: "exc \<Rightarrow> string" where
  "exc_str (FileNotFoundError m) = m"
| "exc_str (NoCredentialsError m) = m"
| "exc_str (ClientError r m) = m"
| "exc_str (OtherException m) = m"

text \<open>
  What a run does, in order: a line printed on standard output; the call
  \<^verbatim>\<open>boto3.client('s3', ...)\<close> with access key, secret key, endpoint and region; the call
  \<^verbatim>\<open>upload_file\<close> with file path, bucket, key and extra arguments; the call \<^verbatim>\<open>head_bucket\<close>
  with the bucket; the interpreter reporting an exception nobody caught.
\<close>

datatype event =
    Print string
  | ClientCall string string "string option" string
  | UploadFileCall string string string "(string \<times> string) list"
  | HeadBucketCall string
  | Uncaught exc

text \<open>
  The outside world of one run: the files, the process environment, and how the three
  calls into the SDK end (\<open>None\<close>: the call returns; \<open>Some e\<close>: it raises \<open>e\<close>).
\<close>

record world =
  files :: filesystem
  environ :: dict
  boto3_client :: "string \<Rightarrow> string \<Rightarrow> string option \<Rightarrow> string \<Rightarrow> exc option"
  upload_file :: "string \<Rightarrow> string \<Rightarrow> string \<Rightarrow> exc option"
  head_bucket :: "string \<Rightarrow> exc option"

text \<open>
  The check mark U+2705 that opens the two success messages lies outside the range of
  \<^typ>\<open>char\<close>; it is written as its three UTF-8 bytes.
\<close>

definition check_mark :: string where
  "check_mark = [CHR 0xE2, CHR 0x9C, CHR 0x85]"

subsection \<open>\<^verbatim>\<open>upload_to_s3\<close>\<close>

definition upload_to_s3 :: "world \<Rightarrow> string \<Rightarrow> string \<Rightarrow> event list \<times> (exc + bool)" where
  "upload_to_s3 w file_path s3_prefix =
     (let env = load_env_file (files w) default_env_path;
          access_key = py_or (env ''S3_ACCESS_KEY_ID'') (environ w ''S3_ACCESS_KEY_ID'');
          secret_key = py_or (env ''S3_SECRET_ACCESS_KEY'') (environ w ''S3_SECRET_ACCESS_KEY'');
          bucket_name = py_or (env ''S3_BUCKET_NAME'') (environ w ''S3_BUCKET_NAME'');
          endpoint_url = py_or (env ''S3_ENDPOINT_URL'') (environ w ''S3_ENDPOINT_URL'');
          region = get_default env ''S3_REGION'' ''ru-central1''
      in
      if \<not> (truthy access_key \<and> truthy secret_key \<and> truthy bucket_name) then
        ([Print ''ERROR: S3 credentials not configured in .env''], Inr False)
      else
        let ak = the access_key; sk = the secret_key; bucket = the bucket_name;
            created = [ClientCall ak sk endpoint_url region]
        in
        (case boto3_client w ak sk endpoint_url region of
           Some e \<Rightarrow>
             (created @ [Print (''ERROR: Failed to create S3 client: '' @ exc_str e)], Inr False)
         | None \<Rightarrow>
             let file_name = path_name file_path;
                 s3_key = s3_prefix @ file_name;
                 called = created @
                   [Print (''Uploading '' @ file_name @ '' to s3://'' @ bucket @ ''/'' @ s3_key @ ''...''),
                    UploadFileCall file_path bucket s3_key [(''StorageClass'', ''STANDARD'')]]
             in
             (case upload_file w file_path bucket s3_key of
                None \<Rightarrow>
                  (called @ [Print (check_mark @ '' Upload successful: s3://'' @ bucket @ ''/'' @ s3_key)],
                   Inr True)
              | Some (FileNotFoundError m) \<Rightarrow>
                  (called @ [Print (''ERROR: File not found: '' @ file_path)], Inr False)
              | Some (NoCredentialsError m) \<Rightarrow>
                  (called @ [Print ''ERROR: Invalid S3 credentials''], Inr False)
              | Some (ClientError r m) \<Rightarrow>
                  (called @ [Print (''ERROR: S3 upload failed: '' @ exc_str (ClientError r m))], Inr False)
              | Some (OtherException m) \<Rightarrow>
                  (called, Inl (OtherException m)))))"

subsection \<open>\<^verbatim>\<open>test_s3_connection\<close>\<close>

text \<open>\<^verbatim>\<open>e.response.get('Error', {}).get('Code', 'Unknown')\<close>\<close>

definition error_code :: "(string \<times> string) list option \<Rightarrow> string" where
  "error_code r =
     (case r of
        None \<Rightarrow> ''Unknown''
      | Some d \<Rightarrow> (case map_of d ''Code'' of None \<Rightarrow> ''Unknown'' | Some c \<Rightarrow> c))"

text \<open>A name between single quotes, as the messages print the bucket.\<close>

definition quoted :: "string \<Rightarrow> string" where
  "quoted s = [CHR 0x27] @ s @ [CHR 0x27]"

text \<open>
  The two \<^verbatim>\<open>except\<close> clauses of the function, lines 107 to 118: what is printed for an
  exception raised inside the \<^verbatim>\<open>try\<close> block. Both clauses return \<^verbatim>\<open>False\<close>.
\<close>

fun connection_failure :: "string \<Rightarrow> exc \<Rightarrow> string" where
  "connection_failure bucket (ClientError r m) =
     (if error_code r = ''404'' then ''ERROR: Bucket '' @ quoted bucket @ '' not found''
      else if error_code r = ''403'' then ''ERROR: Access denied to bucket '' @ quoted bucket
      else ''ERROR: S3 connection failed: '' @ exc_str (ClientError r m))"
| "connection_failure bucket e = ''ERROR: Failed to connect to S3: '' @ exc_str e"

definition test_s3_connection :: "world \<Rightarrow> event list \<times> (exc + bool)" where
  "test_s3_connection w =
     (let env = load_env_file (files w) default_env_path;
          access_key = py_or (env ''S3_ACCESS_KEY_ID'') (environ w ''S3_ACCESS_KEY_ID'');
          secret_key = py_or (env ''S3_SECRET_ACCESS_KEY'') (environ w ''S3_SECRET_ACCESS_KEY'');
          bucket_name = py_or (env ''S3_BUCKET_NAME'') (environ w ''S3_BUCKET_NAME'');
          endpoint_url = py_or (env ''S3_ENDPOINT_URL'') (environ w ''S3_ENDPOINT_URL'');
          region = get_default env ''S3_REGION'' ''ru-central1''
      in
      if \<not> (truthy access_key \<and> truthy secret_key \<and> truthy bucket_name) then
        ([Print ''ERROR: S3 credentials not configured''], Inr False)
      else
        let ak = the access_key; sk = the secret_key; bucket = the bucket_name;
            created = [ClientCall ak sk endpoint_url region]
        in
        (case boto3_client w ak sk endpoint_url region of
           Some e \<Rightarrow> (created @ [Print (connection_failure bucket e)], Inr False)
         | None \<Rightarrow>
             let called = created @ [HeadBucketCall bucket] in
             (case head_bucket w bucket of
                Some e \<Rightarrow> (called @ [Print (connection_failure bucket e)], Inr False)
              | None \<Rightarrow>
                  (called @ [Print (check_mark @ '' S3 connection successful: bucket '' @ quoted bucket
                                     @ '' is accessible'')],
                   Inr True))))"

subsection \<open>The command line\<close>

text \<open>
  \<^verbatim>\<open>sys.exit(0 if success else 1)\<close> after an operation; an exception that leaves the
  operation is reported by the interpreter, which then exits with status 1.
\<close>

fun exit_with :: "event list \<times> (exc + bool) \<Rightarrow> event list \<times> nat" where
  "exit_with (evs, Inr success) = (evs, if success then 0 else 1)"
| "exit_with (evs, Inl e) = (evs @ [Uncaught e], 1)"

text \<open>The \<^verbatim>\<open>__main__\<close> block; \<open>argv\<close> is \<^verbatim>\<open>sys.argv\<close>, the program name first.\<close>

definition main :: "world \<Rightarrow> string list \<Rightarrow> event list \<times> nat" where
  "main w argv =
     (if length argv < 2 then
        ([Print ''Usage: s3_upload.py <file_path> [s3_prefix]'',
          Print ''       s3_upload.py --test''], 1)
      else if argv ! 1 = ''--test'' then
        exit_with (test_s3_connection w)
      else
        let file_path = argv ! 1;
            s3_prefix = (if length argv > 2 then argv ! 2 else [])
        in exit_with (upload_to_s3 w file_path s3_prefix))"

subsection \<open>Reading the event list\<close>

text \<open>The events that are an upload request.\<close>

fun is_upload :: "event \<Rightarrow> bool" where
  "is_upload (UploadFileCall p b k x) = True"
| "is_upload e = False"

subsection \<open>The line format as the specification words it\<close>

text \<open>
  The specification of the loader: a line is trimmed; an empty line and a line that begins
  with \<^verbatim>\<open>#\<close> give no entry; any other line is cut at its first \<^verbatim>\<open>=\<close>, and the trimmed text
  before it is the key, the trimmed text after it the value. This definition is written
  from those words, with \<open>takeWhile\<close> and \<open>dropWhile\<close>, to be compared with \<open>env_line\<close>.
\<close>

definition spec_parse_line :: "string \<Rightarrow> (string \<times> string) option" where
  "spec_parse_line l =
     (case strip l of
        [] \<Rightarrow> None
      | c # cs \<Rightarrow>
          if c = CHR ''#'' then None
          else Some (strip (takeWhile (\<lambda>x. x \<noteq> CHR ''='') (c # cs)),
                     strip (drop 1 (dropWhile (\<lambda>x. x \<noteq> CHR ''='') (c # cs)))))"

text \<open>
  A text that neither begins nor ends with white space: what trimming leaves of a key or a
  value.
\<close>

definition trimmed :: "string \<Rightarrow> bool" where
  "trimmed s = (s = [] \<or> (\<not> isspace (hd s) \<and> \<not> isspace (last s)))"

subsection \<open>The base name as the specification words it\<close>

text \<open>
  The specification writes the key as \<^verbatim>\<open>prefix + basename(file_path)\<close>. Python's
  \<^verbatim>\<open>os.path.basename\<close> is the text after the last \<^verbatim>\<open>/\<close> of the path, the whole path when
  it has none. This definition is written from those words, to be compared with the name
  the script takes from \<^verbatim>\<open>Path(file_path).name\<close>.
\<close>

definition basename :: "string \<Rightarrow> string" where
  "basename p = rev (takeWhile (\<lambda>c. c \<noteq> CHR ''/'') (rev p))"

text \<open>The upload requests of a run: the file path and the key of each, in order.\<close>

fun uploaded :: "event list \<Rightarrow> (string \<times> string) list" where
  "uploaded [] = []"
| "uploaded (UploadFileCall p b k x # evs) = (p, k) # uploaded evs"
| "uploaded (e # evs) = uploaded evs"

subsection \<open>Example runs\<close>

text \<open>A configuration file with the three required keys and no region.\<close>

definition env_text :: string where
  "env_text = ''# backup storage\<newline>S3_ACCESS_KEY_ID = AK\<newline>\<newline>S3_SECRET_ACCESS_KEY=SK\<newline>S3_BUCKET_NAME=backups\<newline>''"

text \<open>
  The file holds the credentials, the environment sets only \<^verbatim>\<open>S3_REGION\<close>, every SDK call
  returns.
\<close>

definition w_file_config :: world where
  "w_file_config =
     \<lparr>files = [default_env_path \<mapsto> env_text],
      environ = [''S3_REGION'' \<mapsto> ''us-west-1''],
      boto3_client = (\<lambda>ak sk ep r. None),
      upload_file = (\<lambda>p b k. None),
      head_bucket = (\<lambda>b. None)\<rparr>"

text \<open>No configuration file; the environment sets all five keys; every SDK call returns.\<close>

definition w_env_config :: world where
  "w_env_config =
     \<lparr>files = Map.empty,
      environ = [''S3_ACCESS_KEY_ID'' \<mapsto> ''AK'', ''S3_SECRET_ACCESS_KEY'' \<mapsto> ''SK'',
                 ''S3_BUCKET_NAME'' \<mapsto> ''backups'',
                 ''S3_ENDPOINT_URL'' \<mapsto> ''https://storage.example.net'',
                 ''S3_REGION'' \<mapsto> ''eu-west-1''],
      boto3_client = (\<lambda>ak sk ep r. None),
      upload_file = (\<lambda>p b k. None),
      head_bucket = (\<lambda>b. None)\<rparr>"

text \<open>
  As before, but \<^verbatim>\<open>upload_file\<close> raises an exception of a class that is none of
  \<^verbatim>\<open>FileNotFoundError\<close>, \<^verbatim>\<open>NoCredentialsError\<close> and \<^verbatim>\<open>ClientError\<close> (the SDK's
  \<^verbatim>\<open>S3UploadFailedError\<close> and \<^verbatim>\<open>EndpointConnectionError\<close> are such classes).
\<close>

definition w_upload_fails :: world where
  "w_upload_fails =
     w_env_config\<lparr>upload_file := (\<lambda>p b k. Some (OtherException ''Failed to upload''))\<rparr>"

text \<open>The file gives the bucket name an empty value and the environment is empty.\<close>

definition w_empty_bucket :: world where
  "w_empty_bucket =
     \<lparr>files = [default_env_path \<mapsto>
                ''S3_ACCESS_KEY_ID=AK\<newline>S3_SECRET_ACCESS_KEY=SK\<newline>S3_BUCKET_NAME=\<newline>''],
      environ = Map.empty,
      boto3_client = (\<lambda>ak sk ep r. None),
      upload_file = (\<lambda>p b k. None),
      head_bucket = (\<lambda>b. None)\<rparr>"

text \<open>The bucket check answers with a \<open>ClientError\<close> whose code is \<^verbatim>\<open>404\<close>.\<close>

definition w_bucket_404 :: world where
  "w_bucket_404 =
     w_file_config\<lparr>head_bucket :=
       (\<lambda>b. Some (ClientError (Some [(''Code'', ''404''), (''Message'', ''Not Found'')])
                     ''An error occurred (404) when calling the HeadBucket operation: Not Found''))\<rparr>"

text \<open>The same with code \<^verbatim>\<open>403\<close>, with another code, and with a response that has no
  \<^verbatim>\<open>'Error'\<close> entry.\<close>

definition w_bucket_403 :: world where
  "w_bucket_403 =
     w_file_config\<lparr>head_bucket :=
       (\<lambda>b. Some (ClientError (Some [(''Message'', ''Forbidden''), (''Code'', ''403'')])
                     ''An error occurred (403) when calling the HeadBucket operation: Forbidden''))\<rparr>"

definition w_bucket_500 :: world where
  "w_bucket_500 =
     w_file_config\<lparr>head_bucket :=
       (\<lambda>b. Some (ClientError (Some [(''Code'', ''500'')])
                     ''An error occurred (500) when calling the HeadBucket operation: Internal Error''))\<rparr>"

definition w_bucket_no_error_entry :: world where
  "w_bucket_no_error_entry =
     w_file_config\<lparr>head_bucket := (\<lambda>b. Some (ClientError None ''An error occurred''))\<rparr>"

text \<open>
  A configuration file with a blank line, an indented comment, a padded pair whose value
  holds a second \<^verbatim>\<open>=\<close>, and a line without \<^verbatim>\<open>=\<close>.
\<close>

definition padded_text :: string where
  "padded_text = ''  \<newline>  # note\<newline> KEY = some = value \<newline>FLAG\<newline>''"

section \<open>Properties\<close>

subsection \<open>Trimming\<close>

lemma dropWhile_idem: "dropWhile P (dropWhile P xs) = dropWhile P xs"
  by (induction xs) auto

lemma strip_Nil: "strip [] = []"
  by (simp add: strip_def lstrip_def rstrip_def)

lemma lstrip_hd: "lstrip s \<noteq> [] \<Longrightarrow> \<not> isspace (hd (lstrip s))"
  unfolding lstrip_def by (metis hd_dropWhile)

lemma rstrip_last: "rstrip s \<noteq> [] \<Longrightarrow> \<not> isspace (last (rstrip s))"
  unfolding rstrip_def by (metis hd_dropWhile last_rev rev_is_Nil_conv)

lemma rstrip_hd: "rstrip s \<noteq> [] \<Longrightarrow> hd (rstrip s) = hd s"
proof (induction s rule: rev_induct)
  case Nil
  then show ?case by (simp add: rstrip_def)
next
  case (snoc x xs)
  then show ?case by (cases xs) (auto simp: rstrip_def)
qed

lemma lstrip_noop: "s \<noteq> [] \<Longrightarrow> \<not> isspace (hd s) \<Longrightarrow> lstrip s = s"
  by (cases s) (auto simp: lstrip_def)

lemma rstrip_noop: "s \<noteq> [] \<Longrightarrow> \<not> isspace (last s) \<Longrightarrow> rstrip s = s"
  by (cases s rule: rev_cases) (auto simp: rstrip_def)

text \<open>A trimmed text neither begins nor ends with white space.\<close>

lemma strip_hd: "strip s \<noteq> [] \<Longrightarrow> \<not> isspace (hd (strip s))"
  unfolding strip_def
  by (metis lstrip_hd rstrip_hd rstrip_def rev.simps(1) dropWhile.simps(1))

lemma strip_last: "strip s \<noteq> [] \<Longrightarrow> \<not> isspace (last (strip s))"
  unfolding strip_def by (rule rstrip_last)

text \<open>Trimming twice is trimming once: the key of a line without \<^verbatim>\<open>=\<close> is the trimmed line.\<close>

lemma strip_strip: "strip (strip s) = strip s"
proof (cases "strip s = []")
  case True
  with strip_Nil show ?thesis by simp
next
  case False
  then have "lstrip (strip s) = strip s"
    by (simp add: lstrip_noop strip_hd)
  moreover have "rstrip (strip s) = strip s"
    using False by (simp add: rstrip_noop strip_last)
  ultimately show ?thesis by (simp add: strip_def)
qed

subsection \<open>Cutting at the first separator\<close>

lemma find_char_None: "(find_char c s = None) = (c \<notin> set s)"
  by (induction s) auto

lemma find_char_append: "c \<notin> set k \<Longrightarrow> find_char c (k @ c # v) = Some (length k)"
  by (induction k) auto

lemma find_char_takeWhile:
  "find_char c s = Some i \<Longrightarrow>
     take i s = takeWhile (\<lambda>x. x \<noteq> c) s \<and> drop (Suc i) s = drop 1 (dropWhile (\<lambda>x. x \<noteq> c) s)"
  by (induction s arbitrary: i) (auto split: if_splits)

lemma str_partition_found: "c \<notin> set k \<Longrightarrow> str_partition (k @ c # v) c = (k, [c], v)"
  by (simp add: str_partition_def find_char_append)

lemma str_partition_absent: "c \<notin> set s \<Longrightarrow> str_partition s c = (s, [], [])"
  by (simp add: str_partition_def find_char_None[THEN iffD2])

text \<open>\<open>str_partition\<close> cuts where \<open>takeWhile\<close> and \<open>dropWhile\<close> do.\<close>

lemma str_partition_takeWhile:
  "fst (str_partition s c) = takeWhile (\<lambda>x. x \<noteq> c) s
   \<and> snd (snd (str_partition s c)) = drop 1 (dropWhile (\<lambda>x. x \<noteq> c) s)"
proof (cases "find_char c s")
  case None
  then have "c \<notin> set s" by (simp add: find_char_None)
  then have tw: "takeWhile (\<lambda>x. x \<noteq> c) s = s" and dw: "dropWhile (\<lambda>x. x \<noteq> c) s = []"
    by auto
  show ?thesis by (simp add: str_partition_def None tw dw)
next
  case (Some i)
  with find_char_takeWhile[OF Some] show ?thesis by (simp add: str_partition_def)
qed

subsection \<open>The lines of a file\<close>

text \<open>The lines are consecutive pieces of the text, none of them empty.\<close>

lemma concat_split_lines: "concat (split_lines s) = s"
  by (induction s) (auto split: list.splits)

lemma split_lines_nonempty: "l \<in> set (split_lines s) \<Longrightarrow> l \<noteq> []"
  by (induction s arbitrary: l) (auto split: if_splits list.splits)

subsection \<open>The loop of \<open>load_env_file\<close>\<close>

lemma env_line_skip: "strip l = [] \<or> startswith (strip l) ''#'' \<Longrightarrow> env_line l m = m"
  by (auto simp: env_line_def Let_def)

lemma env_line_entry:
  "strip l \<noteq> [] \<Longrightarrow> \<not> startswith (strip l) ''#'' \<Longrightarrow> strip l = k @ CHR ''='' # v
   \<Longrightarrow> CHR ''='' \<notin> set k \<Longrightarrow> env_line l m = m(strip k \<mapsto> strip v)"
  by (simp add: env_line_def Let_def str_partition_found)

lemma env_line_spec:
  "env_line l m = (case spec_parse_line l of None \<Rightarrow> m | Some (k, v) \<Rightarrow> m(k \<mapsto> v))"
proof (cases "strip l")
  case Nil
  then show ?thesis by (simp add: env_line_def spec_parse_line_def)
next
  case (Cons c cs)
  show ?thesis
  proof (cases "c = CHR ''#''")
    case True
    with Cons show ?thesis by (simp add: env_line_def spec_parse_line_def startswith_def)
  next
    case False
    obtain a b d where p: "str_partition (c # cs) CHR ''='' = (a, b, d)"
      by (cases "str_partition (c # cs) CHR ''=''") auto
    from str_partition_takeWhile[of "c # cs" "CHR ''=''"] p
    have "a = takeWhile (\<lambda>x. x \<noteq> CHR ''='') (c # cs)"
      and "d = drop 1 (dropWhile (\<lambda>x. x \<noteq> CHR ''='') (c # cs))"
      by simp_all
    with Cons False p show ?thesis
      by (simp add: env_line_def spec_parse_line_def startswith_def Let_def
               del: takeWhile.simps dropWhile.simps)
  qed
qed

lemma fold_env_line_spec:
  "fold env_line ls m = m ++ map_of (rev (List.map_filter spec_parse_line ls))"
proof (induction ls arbitrary: m)
  case Nil
  then show ?case by simp
next
  case (Cons l ls)
  show ?case
  proof (cases "spec_parse_line l")
    case None
    then show ?thesis by (simp add: Cons.IH env_line_spec[of l m])
  next
    case (Some kv)
    obtain k v where kv: "kv = (k, v)" by (cases kv)
    from Some kv have e: "env_line l m = m(k \<mapsto> v)"
      by (simp add: env_line_spec[of l m] fun_upd_def)
    from Some kv
    have r: "List.map_filter spec_parse_line (l # ls) = (k, v) # List.map_filter spec_parse_line ls"
      by (simp add: List.map_filter_simps)
    have "fold env_line (l # ls) m = fold env_line ls (m(k \<mapsto> v))"
      using e by simp
    also have "\<dots> = m(k \<mapsto> v) ++ map_of (rev (List.map_filter spec_parse_line ls))"
      by (rule Cons.IH)
    also have "\<dots> = m ++ map_of (rev ((k, v) # List.map_filter spec_parse_line ls))"
      by (rule ext) (simp add: map_add_def split: option.splits)
    finally show ?thesis
      by (simp only: r)
  qed
qed

lemma env_line_dom: "k \<in> dom m \<Longrightarrow> k \<in> dom (env_line l m)"
  by (auto simp: env_line_def Let_def split: prod.splits)

lemma fold_env_line_dom: "k \<in> dom m \<Longrightarrow> k \<in> dom (fold env_line ls m)"
  by (induction ls arbitrary: m) (auto simp: env_line_dom simp del: fun_upd_apply)

lemma fold_env_line_mem:
  "l \<in> set ls \<Longrightarrow> (\<And>m. k \<in> dom (env_line l m)) \<Longrightarrow> k \<in> dom (fold env_line ls m)"
proof (induction ls arbitrary: m)
  case Nil
  then show ?case by simp
next
  case (Cons a ls)
  show ?case
  proof (cases "a = l")
    case True
    then show ?thesis using Cons.prems(2) by (simp add: fold_env_line_dom)
  next
    case False
    then show ?thesis using Cons by auto
  qed
qed

text \<open>A file that does not exist gives the empty mapping.\<close>

lemma load_env_file_missing: "fs p = None \<Longrightarrow> load_env_file fs p = Map.empty"
  by (simp add: load_env_file_def)

subsection \<open>The base name of a path\<close>

lemma str_split_nonempty: "str_split c s \<noteq> []"
  by (induction s) (auto split: list.splits)

lemma str_split_no_sep: "c \<notin> set s \<Longrightarrow> str_split c s = [s]"
  by (induction s) auto

lemma str_split_append: "str_split c (d @ c # n) = str_split c d @ str_split c n"
  by (induction d) (auto simp: str_split_nonempty split: list.splits)

text \<open>
  For a path that ends in a proper file name, \<open>path_name\<close> is the text after the last
  \<^verbatim>\<open>/\<close>, and the whole path when it has no \<^verbatim>\<open>/\<close>.
\<close>

lemma path_name_after_slash:
  "CHR ''/'' \<notin> set n \<Longrightarrow> n \<noteq> [] \<Longrightarrow> n \<noteq> ''.'' \<Longrightarrow> path_name (d @ CHR ''/'' # n) = n"
  by (simp add: path_name_def str_split_append str_split_no_sep)

lemma path_name_no_slash:
  "CHR ''/'' \<notin> set n \<Longrightarrow> n \<noteq> [] \<Longrightarrow> n \<noteq> ''.'' \<Longrightarrow> path_name n = n"
  by (simp add: path_name_def str_split_no_sep)

subsection \<open>The example runs, evaluated\<close>

lemmas line_defs =
  load_env_file_def file_lines_def env_line_def strip_def lstrip_def rstrip_def isspace_def
  startswith_def str_partition_def Let_def

lemma load_env_text:
  "load_env_file [default_env_path \<mapsto> env_text] default_env_path =
     [''S3_ACCESS_KEY_ID'' \<mapsto> ''AK'', ''S3_SECRET_ACCESS_KEY'' \<mapsto> ''SK'',
      ''S3_BUCKET_NAME'' \<mapsto> ''backups'']"
  by (simp add: line_defs env_text_def)

lemma load_empty_bucket:
  "load_env_file
     [default_env_path \<mapsto>
        ''S3_ACCESS_KEY_ID=AK\<newline>S3_SECRET_ACCESS_KEY=SK\<newline>S3_BUCKET_NAME=\<newline>'']
     default_env_path =
     [''S3_ACCESS_KEY_ID'' \<mapsto> ''AK'', ''S3_SECRET_ACCESS_KEY'' \<mapsto> ''SK'',
      ''S3_BUCKET_NAME'' \<mapsto> []]"
  by (simp add: line_defs)

lemmas run_defs =
  upload_to_s3_def test_s3_connection_def py_or_def truthy_def get_default_def Let_def
  load_env_text load_empty_bucket load_env_file_missing
  w_file_config_def w_env_config_def w_upload_fails_def w_empty_bucket_def w_bucket_404_def

lemma upload_file_config:
  "upload_to_s3 w_file_config ''/tmp/backup.tar.gz'' ''daily/'' =
     ([ClientCall ''AK'' ''SK'' None ''ru-central1'',
       Print ''Uploading backup.tar.gz to s3://backups/daily/backup.tar.gz...'',
       UploadFileCall ''/tmp/backup.tar.gz'' ''backups'' ''daily/backup.tar.gz''
         [(''StorageClass'', ''STANDARD'')],
       Print (check_mark @ '' Upload successful: s3://backups/daily/backup.tar.gz'')],
      Inr True)"
  by (simp add: run_defs path_name_def)

lemma upload_file_config_no_prefix:
  "upload_to_s3 w_file_config ''/tmp/backup.tar.gz'' [] =
     ([ClientCall ''AK'' ''SK'' None ''ru-central1'',
       Print ''Uploading backup.tar.gz to s3://backups/backup.tar.gz...'',
       UploadFileCall ''/tmp/backup.tar.gz'' ''backups'' ''backup.tar.gz''
         [(''StorageClass'', ''STANDARD'')],
       Print (check_mark @ '' Upload successful: s3://backups/backup.tar.gz'')],
      Inr True)"
  by (simp add: run_defs path_name_def)

lemma test_file_config:
  "test_s3_connection w_file_config =
     ([ClientCall ''AK'' ''SK'' None ''ru-central1'', HeadBucketCall ''backups'',
       Print (check_mark @ '' S3 connection successful: bucket '' @ quoted ''backups''
              @ '' is accessible'')],
      Inr True)"
  by (simp add: run_defs)

lemma test_bucket_404:
  "test_s3_connection w_bucket_404 =
     ([ClientCall ''AK'' ''SK'' None ''ru-central1'', HeadBucketCall ''backups'',
       Print (''ERROR: Bucket '' @ quoted ''backups'' @ '' not found'')],
      Inr False)"
  by (simp add: run_defs error_code_def)

lemma upload_env_config:
  "upload_to_s3 w_env_config ''/tmp/backup.tar.gz'' [] =
     ([ClientCall ''AK'' ''SK'' (Some ''https://storage.example.net'') ''ru-central1'',
       Print ''Uploading backup.tar.gz to s3://backups/backup.tar.gz...'',
       UploadFileCall ''/tmp/backup.tar.gz'' ''backups'' ''backup.tar.gz''
         [(''StorageClass'', ''STANDARD'')],
       Print (check_mark @ '' Upload successful: s3://backups/backup.tar.gz'')],
      Inr True)"
  by (simp add: run_defs path_name_def)

lemma test_env_config:
  "test_s3_connection w_env_config =
     ([ClientCall ''AK'' ''SK'' (Some ''https://storage.example.net'') ''ru-central1'',
       HeadBucketCall ''backups'',
       Print (check_mark @ '' S3 connection successful: bucket '' @ quoted ''backups''
              @ '' is accessible'')],
      Inr True)"
  by (simp add: run_defs)

lemma upload_upload_fails:
  "upload_to_s3 w_upload_fails ''/tmp/backup.tar.gz'' [] =
     ([ClientCall ''AK'' ''SK'' (Some ''https://storage.example.net'') ''ru-central1'',
       Print ''Uploading backup.tar.gz to s3://backups/backup.tar.gz...'',
       UploadFileCall ''/tmp/backup.tar.gz'' ''backups'' ''backup.tar.gz''
         [(''StorageClass'', ''STANDARD'')]],
      Inl (OtherException ''Failed to upload''))"
  by (simp add: run_defs path_name_def)

subsection \<open>Resolving the configuration\<close>

text \<open>
  The four keys read with \<^verbatim>\<open>env.get(k) or os.getenv(k)\<close> come from the environment when
  the file has no value, or an empty one, for them.
\<close>

lemma py_or_falls_back: "\<not> truthy a \<Longrightarrow> py_or a b = b"
  by (simp add: py_or_def)

lemma py_or_falsy: "\<not> truthy a \<Longrightarrow> \<not> truthy b \<Longrightarrow> \<not> truthy (py_or a b)"
  by (simp add: py_or_def)

text \<open>The region handed to the SDK is the file's value or the default, whatever the environment.\<close>

lemma upload_region_from_file_or_default:
  "ClientCall ak sk ep r \<in> set (fst (upload_to_s3 w file_path s3_prefix)) \<Longrightarrow>
     r = get_default (load_env_file (files w) default_env_path) ''S3_REGION'' ''ru-central1''"
  by (auto simp: upload_to_s3_def Let_def split: if_splits option.splits exc.splits)

lemma test_region_from_file_or_default:
  "ClientCall ak sk ep r \<in> set (fst (test_s3_connection w)) \<Longrightarrow>
     r = get_default (load_env_file (files w) default_env_path) ''S3_REGION'' ''ru-central1''"
  by (auto simp: test_s3_connection_def Let_def split: if_splits option.splits)

subsection \<open>What the two operations return\<close>

text \<open>The connectivity test always returns, and never asks for an upload.\<close>

lemma test_s3_connection_returns: "\<exists>b. snd (test_s3_connection w) = Inr b"
  by (auto simp: test_s3_connection_def Let_def split: option.splits)

lemma test_s3_connection_no_upload: "filter is_upload (fst (test_s3_connection w)) = []"
  by (auto simp: test_s3_connection_def Let_def split: option.splits)

text \<open>
  The upload returns whenever \<^verbatim>\<open>upload_file\<close> returns or raises one of the three classes
  named in the \<^verbatim>\<open>except\<close> clauses; the result is \<open>True\<close> only after \<^verbatim>\<open>upload_file\<close> returned.
\<close>

lemma upload_to_s3_listed_errors_caught:
  "(\<And>p b k m. upload_file w p b k \<noteq> Some (OtherException m)) \<Longrightarrow>
     \<exists>r. snd (upload_to_s3 w file_path s3_prefix) = Inr r"
  by (auto simp: upload_to_s3_def Let_def split: option.splits exc.splits)

lemma upload_to_s3_raises_only_other:
  "snd (upload_to_s3 w file_path s3_prefix) = Inl e \<Longrightarrow> \<exists>m. e = OtherException m"
  by (auto simp: upload_to_s3_def Let_def split: if_splits option.splits exc.splits)

lemma exit_with_code: "snd (exit_with r) = (if snd r = Inr True then 0 else 1)"
  by (cases r rule: exit_with.cases) auto

subsection \<open>Trimming a padded text\<close>

lemma lstrip_blank: "list_all isspace a \<Longrightarrow> lstrip (a @ x) = lstrip x"
  by (induction a) (auto simp: lstrip_def)

lemma rstrip_blank: "list_all isspace b \<Longrightarrow> rstrip (x @ b) = rstrip x"
  by (induction b rule: rev_induct) (auto simp: rstrip_def)

lemma lstrip_keep: "x \<noteq> [] \<Longrightarrow> \<not> isspace (hd x) \<Longrightarrow> lstrip (x @ y) = x @ y"
  by (cases x) (auto simp: lstrip_def)

lemma rstrip_keep: "y \<noteq> [] \<Longrightarrow> \<not> isspace (last y) \<Longrightarrow> rstrip (x @ y) = x @ y"
  by (cases y rule: rev_cases) (auto simp: rstrip_def)

lemma strip_blank:
  assumes "list_all isspace a"
  shows "strip a = []"
proof -
  have dw: "dropWhile isspace a = []"
    using assms by (induction a) auto
  show ?thesis by (simp add: strip_def lstrip_def rstrip_def dw)
qed

text \<open>Trimming removes the white space around a trimmed text, and nothing else.\<close>

lemma strip_padded:
  assumes "list_all isspace a" and "list_all isspace b" and "trimmed x"
  shows "strip (a @ x @ b) = x"
proof (cases "x = []")
  case True
  from assms(1,2) have "list_all isspace (a @ b)" by simp
  then have "strip (a @ b) = []" by (rule strip_blank)
  with True show ?thesis by simp
next
  case False
  with assms(3) have h: "\<not> isspace (hd x)" and l: "\<not> isspace (last x)"
    by (simp_all add: trimmed_def)
  have "lstrip (a @ x @ b) = x @ b"
    using assms(1) False h by (simp add: lstrip_blank lstrip_keep)
  moreover have "rstrip (x @ b) = x"
    using assms(2) False l rstrip_keep[of x "[]"] by (simp add: rstrip_blank)
  ultimately show ?thesis by (simp add: strip_def)
qed

lemma not_isspace_eq: "\<not> isspace CHR ''=''"
  by (simp add: isspace_def)

lemma not_isspace_hash: "\<not> isspace CHR ''#''"
  by (simp add: isspace_def)

lemma blank_no_eq: "list_all isspace s \<Longrightarrow> CHR ''='' \<notin> set s"
  using not_isspace_eq by (auto simp: list_all_iff)

lemma takeWhile_first: "c \<notin> set p \<Longrightarrow> takeWhile (\<lambda>x. x \<noteq> c) (p @ c # q) = p"
  by (induction p) auto

lemma dropWhile_first: "c \<notin> set p \<Longrightarrow> dropWhile (\<lambda>x. x \<noteq> c) (p @ c # q) = c # q"
  by (induction p) auto

subsection \<open>The line parser on each shape of line\<close>

lemma spec_parse_line_strip:
  assumes "strip l = t" and "t \<noteq> []" and "hd t \<noteq> CHR ''#''"
  shows "spec_parse_line l =
           Some (strip (takeWhile (\<lambda>x. x \<noteq> CHR ''='') t),
                 strip (drop 1 (dropWhile (\<lambda>x. x \<noteq> CHR ''='') t)))"
proof -
  from assms(2,3) obtain c cs where "t = c # cs" and "c \<noteq> CHR ''#''"
    by (cases t) auto
  with assms(1) show ?thesis
    by (simp add: spec_parse_line_def del: takeWhile.simps dropWhile.simps)
qed

lemma spec_parse_line_blank: "list_all isspace a \<Longrightarrow> spec_parse_line a = None"
  by (simp add: spec_parse_line_def strip_blank)

lemma spec_parse_line_comment:
  assumes "list_all isspace a"
  shows "spec_parse_line (a @ CHR ''#'' # r) = None"
proof -
  have "lstrip (a @ CHR ''#'' # r) = CHR ''#'' # r"
    using assms lstrip_keep[of "[CHR ''#'']" r] by (simp add: lstrip_blank not_isspace_hash)
  then have s: "strip (a @ CHR ''#'' # r) = rstrip (CHR ''#'' # r)"
    by (simp add: strip_def)
  have ne: "rstrip (CHR ''#'' # r) \<noteq> []"
    using not_isspace_hash by (auto simp: rstrip_def dropWhile_eq_Nil_conv)
  with rstrip_hd[OF ne] obtain cs where "rstrip (CHR ''#'' # r) = CHR ''#'' # cs"
    by (cases "rstrip (CHR ''#'' # r)") auto
  with s show ?thesis by (simp add: spec_parse_line_def)
qed

lemma spec_parse_line_pair:
  assumes a: "list_all isspace a" and s1: "list_all isspace s1"
    and s2: "list_all isspace s2" and b: "list_all isspace b"
    and k: "trimmed k" "CHR ''='' \<notin> set k" "k \<noteq> [] \<longrightarrow> hd k \<noteq> CHR ''#''"
    and v: "trimmed v"
  shows "spec_parse_line (a @ k @ s1 @ CHR ''='' # s2 @ v @ b) = Some (k, v)"
proof -
  define a' where "a' = (if k = [] then a @ s1 else a)"
  define b' where "b' = (if v = [] then s2 @ b else b)"
  define x where "x = (if k = [] then [] else k @ s1) @ CHR ''='' # (if v = [] then [] else s2 @ v)"
  have line: "a @ k @ s1 @ CHR ''='' # s2 @ v @ b = a' @ x @ b'"
    by (simp add: a'_def b'_def x_def)
  have "list_all isspace a'" "list_all isspace b'"
    using a s1 s2 b by (simp_all add: a'_def b'_def)
  moreover have "trimmed x"
    using k(1) v not_isspace_eq by (auto simp: trimmed_def x_def)
  ultimately have st: "strip (a @ k @ s1 @ CHR ''='' # s2 @ v @ b) = x"
    unfolding line by (rule strip_padded)
  have noeq: "CHR ''='' \<notin> set (if k = [] then [] else k @ s1)"
    using k(2) blank_no_eq[OF s1] by simp
  have tw: "takeWhile (\<lambda>c. c \<noteq> CHR ''='') x = (if k = [] then [] else k @ s1)"
    unfolding x_def using noeq by (rule takeWhile_first)
  have dw: "dropWhile (\<lambda>c. c \<noteq> CHR ''='') x = CHR ''='' # (if v = [] then [] else s2 @ v)"
    unfolding x_def using noeq by (rule dropWhile_first)
  have key: "strip (if k = [] then [] else k @ s1) = k"
    using strip_padded[of "[]" s1 k] s1 k(1) by (simp add: strip_Nil)
  have val: "strip (if v = [] then [] else s2 @ v) = v"
    using strip_padded[of s2 "[]" v] s2 v by (simp add: strip_Nil)
  have hd_x: "x \<noteq> []" "hd x \<noteq> CHR ''#''"
    using k(3) by (auto simp: x_def)
  show ?thesis
    unfolding spec_parse_line_strip[OF st hd_x] tw dw
    by (simp add: key val)
qed

lemma spec_parse_line_bare:
  assumes "list_all isspace a" and "list_all isspace b"
    and "t \<noteq> []" and "trimmed t" and "hd t \<noteq> CHR ''#''" and "CHR ''='' \<notin> set t"
  shows "spec_parse_line (a @ t @ b) = Some (t, [])"
proof -
  have st: "strip (a @ t @ b) = t"
    using assms(1,2,4) by (rule strip_padded)
  have tw: "takeWhile (\<lambda>x. x \<noteq> CHR ''='') t = t"
    and dw: "dropWhile (\<lambda>x. x \<noteq> CHR ''='') t = []"
    using assms(6) by auto
  have "strip t = t"
    using strip_padded[of "[]" "[]" t] assms(4) by simp
  then show ?thesis
    unfolding spec_parse_line_strip[OF st assms(3,5)] tw dw
    by (simp add: strip_Nil)
qed

lemma load_env_file_spec:
  "load_env_file fs p =
     (case fs p of
        None \<Rightarrow> Map.empty
      | Some text \<Rightarrow> map_of (rev (List.map_filter spec_parse_line (file_lines text))))"
  by (cases "fs p") (simp_all add: load_env_file_def fold_env_line_spec)

subsection \<open>The name of a path and its base name\<close>

lemma filter_split_slash:
  "filter (\<lambda>x. x \<noteq> [] \<and> x \<noteq> ''.'') (str_split CHR ''/'' (x @ ''/'')) =
     filter (\<lambda>x. x \<noteq> [] \<and> x \<noteq> ''.'') (str_split CHR ''/'' x)"
  using str_split_append[of "CHR ''/''" x "[]"] by simp

lemma filter_split_slash_dot:
  "filter (\<lambda>x. x \<noteq> [] \<and> x \<noteq> ''.'') (str_split CHR ''/'' (x @ ''/.'')) =
     filter (\<lambda>x. x \<noteq> [] \<and> x \<noteq> ''.'') (str_split CHR ''/'' x)"
  using str_split_append[of "CHR ''/''" x "''.''"] by simp

text \<open>Trailing \<^verbatim>\<open>/\<close> and \<^verbatim>\<open>/.\<close> do not change the name.\<close>

lemma path_name_trailing:
  "set ps \<subseteq> {''/'', ''/.''} \<Longrightarrow> path_name (x @ concat ps) = path_name x"
proof (induction ps arbitrary: x)
  case Nil
  then show ?case by simp
next
  case (Cons q ps)
  then have q: "q = ''/'' \<or> q = ''/.''" and ps: "set ps \<subseteq> {''/'', ''/.''}"
    by auto
  have "path_name (x @ concat (q # ps)) = path_name ((x @ q) @ concat ps)"
    by simp
  also have "\<dots> = path_name (x @ q)"
    using ps by (rule Cons.IH)
  also have "\<dots> = path_name x"
    using q filter_split_slash[of x] filter_split_slash_dot[of x]
    by (auto simp: path_name_def)
  finally show ?case .
qed

lemma path_name_component:
  assumes "d = [] \<or> last d = CHR ''/''" and "CHR ''/'' \<notin> set n" and "n \<noteq> []" and "n \<noteq> ''.''"
  shows "path_name (d @ n) = n"
proof (cases "d = []")
  case True
  with assms show ?thesis by (simp add: path_name_no_slash)
next
  case False
  with assms(1) obtain d' where "d = d' @ ''/''"
    by (cases d rule: rev_cases) auto
  with assms(2,3,4) show ?thesis by (simp add: path_name_after_slash)
qed

lemma path_name_empty: "path_name [] = []" and path_name_dot: "path_name ''.'' = []"
  by (simp_all add: path_name_def)

text \<open>
  Where the path does not end in \<^verbatim>\<open>/\<close> and its last piece is not \<^verbatim>\<open>.\<close>, the name is the
  base name.
\<close>

lemma basename_no_slash: "CHR ''/'' \<notin> set p \<Longrightarrow> basename p = p"
proof -
  assume "CHR ''/'' \<notin> set p"
  then have "takeWhile (\<lambda>c. c \<noteq> CHR ''/'') (rev p) = rev p"
    by (induction p rule: rev_induct) auto
  then show ?thesis by (simp only: basename_def rev_rev_ident)
qed

lemma basename_after_slash: "CHR ''/'' \<notin> set n \<Longrightarrow> basename (d @ CHR ''/'' # n) = n"
proof -
  assume "CHR ''/'' \<notin> set n"
  then have "CHR ''/'' \<notin> set (rev n)" by simp
  then have "takeWhile (\<lambda>c. c \<noteq> CHR ''/'') (rev n @ CHR ''/'' # rev d) = rev n"
    by (rule takeWhile_first)
  moreover have "rev (d @ CHR ''/'' # n) = rev n @ CHR ''/'' # rev d" by simp
  ultimately show ?thesis by (simp only: basename_def rev_rev_ident)
qed

lemma path_name_basename:
  assumes "\<not> (\<exists>d. p = d @ ''/'')" and "basename p \<noteq> ''.''"
  shows "path_name p = basename p"
proof (cases "CHR ''/'' \<in> set p")
  case False
  then have b: "basename p = p" by (rule basename_no_slash)
  show ?thesis
  proof (cases "p = []")
    case True
    then show ?thesis by (simp add: path_name_empty basename_def)
  next
    case ne: False
    with False assms(2) b show ?thesis by (simp add: path_name_no_slash)
  qed
next
  case True
  then obtain d n where p: "p = d @ CHR ''/'' # n" and n: "CHR ''/'' \<notin> set n"
    by (auto dest: split_list_last)
  from n have b: "basename p = n"
    unfolding p by (rule basename_after_slash)
  from assms(1) p have "n \<noteq> []" by auto
  with assms(2) b n show ?thesis
    by (simp add: p path_name_after_slash)
qed

lemma upload_file_config_any:
  "upload_to_s3 w_file_config p s =
     ([ClientCall ''AK'' ''SK'' None ''ru-central1'',
       Print (''Uploading '' @ path_name p @ '' to s3://backups/'' @ s @ path_name p @ ''...''),
       UploadFileCall p ''backups'' (s @ path_name p) [(''StorageClass'', ''STANDARD'')],
       Print (check_mark @ '' Upload successful: s3://backups/'' @ s @ path_name p)],
      Inr True)"
  by (simp add: run_defs)

section \<open>The claims\<close>

text \<open>
  Claim C1: every configuration key, \<^verbatim>\<open>S3_REGION\<close> included, that is absent from the file is
  resolved from the environment variable of the same name. The four keys read with
  \<^verbatim>\<open>env.get(k) or os.getenv(k)\<close> are (\<open>py_or_falls_back\<close>); the region is read with
  \<^verbatim>\<open>env.get('S3_REGION', 'ru-central1')\<close> and never looks at the environment. In the run
  below the file has no \<^verbatim>\<open>S3_REGION\<close>, the environment sets it to \<^verbatim>\<open>us-west-1\<close>, and both
  operations build the client for \<^verbatim>\<open>ru-central1\<close>.
\<close>

theorem region_ignores_environment:
  "load_env_file (files w_file_config) default_env_path ''S3_REGION'' = None
   \<and> environ w_file_config ''S3_REGION'' = Some ''us-west-1''
   \<and> hd (fst (upload_to_s3 w_file_config ''/tmp/backup.tar.gz'' ''daily/'')) =
       ClientCall ''AK'' ''SK'' None ''ru-central1''
   \<and> hd (fst (test_s3_connection w_file_config)) =
       ClientCall ''AK'' ''SK'' None ''ru-central1''"
  by (simp add: upload_file_config test_file_config)
     (simp add: w_file_config_def load_env_text)

text \<open>
  Claim C2: no exception of any kind leaves \<open>upload_to_s3\<close>. The \<^verbatim>\<open>try\<close> around
  \<^verbatim>\<open>upload_file\<close> has clauses for \<^verbatim>\<open>FileNotFoundError\<close>, \<^verbatim>\<open>NoCredentialsError\<close> and
  \<^verbatim>\<open>ClientError\<close> only, where the connectivity test and the client construction end with
  \<^verbatim>\<open>except Exception\<close>. In the run below \<^verbatim>\<open>upload_file\<close> raises an exception of another
  class: it leaves \<open>upload_to_s3\<close>, and the interpreter reports it.
\<close>

theorem upload_exception_propagates:
  "snd (upload_to_s3 w_upload_fails ''/tmp/backup.tar.gz'' []) =
     Inl (OtherException ''Failed to upload'')
   \<and> last (fst (main w_upload_fails [''s3_upload.py'', ''/tmp/backup.tar.gz''])) =
       Uncaught (OtherException ''Failed to upload'')
   \<and> snd (main w_upload_fails [''s3_upload.py'', ''/tmp/backup.tar.gz'']) = 1"
  by (simp add: main_def upload_upload_fails)

text \<open>
  Claim C3: when one of the three required keys has no value, or an empty one, in the file
  and in the environment alike, both operations print their error and return \<open>False\<close> at
  once: the only event of the run is that line, so no client is built and no remote call
  is made.
\<close>

theorem credentials_missing:
  assumes "k \<in> {''S3_ACCESS_KEY_ID'', ''S3_SECRET_ACCESS_KEY'', ''S3_BUCKET_NAME''}"
    and "\<not> truthy (load_env_file (files w) default_env_path k)"
    and "\<not> truthy (environ w k)"
  shows "upload_to_s3 w file_path s3_prefix =
           ([Print ''ERROR: S3 credentials not configured in .env''], Inr False)
       \<and> test_s3_connection w = ([Print ''ERROR: S3 credentials not configured''], Inr False)"
proof -
  have "\<not> truthy (py_or (load_env_file (files w) default_env_path k) (environ w k))"
    using assms(2,3) by (rule py_or_falsy)
  with assms(1) show ?thesis
    by (auto simp: upload_to_s3_def test_s3_connection_def Let_def)
qed

theorem credentials_missing_witness:
  "\<not> truthy (load_env_file (files w_empty_bucket) default_env_path ''S3_BUCKET_NAME'')
   \<and> \<not> truthy (environ w_empty_bucket ''S3_BUCKET_NAME'')
   \<and> upload_to_s3 w_empty_bucket ''/tmp/backup.tar.gz'' [] =
       ([Print ''ERROR: S3 credentials not configured in .env''], Inr False)
   \<and> test_s3_connection w_empty_bucket =
       ([Print ''ERROR: S3 credentials not configured''], Inr False)"
proof -
  have k: "''S3_BUCKET_NAME'' \<in> {''S3_ACCESS_KEY_ID'', ''S3_SECRET_ACCESS_KEY'', ''S3_BUCKET_NAME''}"
    by simp
  have f: "\<not> truthy (load_env_file (files w_empty_bucket) default_env_path ''S3_BUCKET_NAME'')"
    by (simp add: w_empty_bucket_def load_empty_bucket truthy_def)
  have e: "\<not> truthy (environ w_empty_bucket ''S3_BUCKET_NAME'')"
    by (simp add: w_empty_bucket_def truthy_def)
  from credentials_missing[OF k f e, of "''/tmp/backup.tar.gz''" "[]"] f e
  show ?thesis by simp
qed

text \<open>
  Claim C4: when the bucket check raises a client error, \<open>test_s3_connection\<close> returns
  \<open>False\<close>, and the line it prints last is decided by the \<^verbatim>\<open>'Code'\<close> entry under \<^verbatim>\<open>'Error'\<close>
  in the response the error carries: the bucket-not-found message when that entry is
  \<^verbatim>\<open>404\<close>, the access-denied message when it is \<^verbatim>\<open>403\<close>, and in every other case (another
  code, no code, no \<^verbatim>\<open>'Error'\<close> entry) the connection-failure message followed by the text
  of the error.
\<close>

theorem head_bucket_client_error:
  assumes "HeadBucketCall bucket \<in> set (fst (test_s3_connection w))"
    and "head_bucket w bucket = Some (ClientError r m)"
  shows "snd (test_s3_connection w) = Inr False
       \<and> (\<forall>d. r = Some d \<and> map_of d ''Code'' = Some ''404'' \<longrightarrow>
            last (fst (test_s3_connection w)) =
              Print (''ERROR: Bucket '' @ [CHR 0x27] @ bucket @ [CHR 0x27] @ '' not found''))
       \<and> (\<forall>d. r = Some d \<and> map_of d ''Code'' = Some ''403'' \<longrightarrow>
            last (fst (test_s3_connection w)) =
              Print (''ERROR: Access denied to bucket '' @ [CHR 0x27] @ bucket @ [CHR 0x27]))
       \<and> (r = None \<or> (\<exists>d. r = Some d \<and> map_of d ''Code'' \<noteq> Some ''404''
                                      \<and> map_of d ''Code'' \<noteq> Some ''403'') \<longrightarrow>
            last (fst (test_s3_connection w)) = Print (''ERROR: S3 connection failed: '' @ m))"
proof -
  from assms have ret: "snd (test_s3_connection w) = Inr False"
    and line: "last (fst (test_s3_connection w)) =
                 Print (connection_failure bucket (ClientError r m))"
    by (auto simp: test_s3_connection_def Let_def split: if_splits option.splits)
  show ?thesis
  proof (intro conjI allI impI)
    show "snd (test_s3_connection w) = Inr False" by (rule ret)
  next
    fix d
    assume "r = Some d \<and> map_of d ''Code'' = Some ''404''"
    then have "connection_failure bucket (ClientError r m) =
                 ''ERROR: Bucket '' @ [CHR 0x27] @ bucket @ [CHR 0x27] @ '' not found''"
      by (simp add: error_code_def quoted_def)
    then show "last (fst (test_s3_connection w)) =
                 Print (''ERROR: Bucket '' @ [CHR 0x27] @ bucket @ [CHR 0x27] @ '' not found'')"
      by (simp only: line)
  next
    fix d
    assume "r = Some d \<and> map_of d ''Code'' = Some ''403''"
    then have "connection_failure bucket (ClientError r m) =
                 ''ERROR: Access denied to bucket '' @ [CHR 0x27] @ bucket @ [CHR 0x27]"
      by (simp add: error_code_def quoted_def)
    then show "last (fst (test_s3_connection w)) =
                 Print (''ERROR: Access denied to bucket '' @ [CHR 0x27] @ bucket @ [CHR 0x27])"
      by (simp only: line)
  next
    assume "r = None \<or> (\<exists>d. r = Some d \<and> map_of d ''Code'' \<noteq> Some ''404''
                              \<and> map_of d ''Code'' \<noteq> Some ''403'')"
    then have "connection_failure bucket (ClientError r m) = ''ERROR: S3 connection failed: '' @ m"
      by (auto simp: error_code_def split: option.splits)
    then show "last (fst (test_s3_connection w)) = Print (''ERROR: S3 connection failed: '' @ m)"
      by (simp only: line)
  qed
qed

theorem head_bucket_client_error_witness:
  "test_s3_connection w_bucket_404 =
     ([ClientCall ''AK'' ''SK'' None ''ru-central1'', HeadBucketCall ''backups'',
       Print ''ERROR: Bucket 'backups' not found''], Inr False)
   \<and> last (fst (test_s3_connection w_bucket_403)) =
       Print (''ERROR: Access denied to bucket 'backups'' @ [CHR 0x27])
   \<and> snd (test_s3_connection w_bucket_403) = Inr False
   \<and> last (fst (test_s3_connection w_bucket_500)) =
       Print ''ERROR: S3 connection failed: An error occurred (500) when calling the HeadBucket operation: Internal Error''
   \<and> last (fst (test_s3_connection w_bucket_no_error_entry)) =
       Print ''ERROR: S3 connection failed: An error occurred''"
proof -
  have c1: "HeadBucketCall ''backups'' \<in> set (fst (test_s3_connection w_bucket_404))"
    and c2: "HeadBucketCall ''backups'' \<in> set (fst (test_s3_connection w_bucket_403))"
    and c3: "HeadBucketCall ''backups'' \<in> set (fst (test_s3_connection w_bucket_500))"
    and c4: "HeadBucketCall ''backups'' \<in> set (fst (test_s3_connection w_bucket_no_error_entry))"
    by (simp_all add: run_defs w_bucket_403_def w_bucket_500_def w_bucket_no_error_entry_def)
  have h1: "head_bucket w_bucket_404 ''backups'' =
              Some (ClientError (Some [(''Code'', ''404''), (''Message'', ''Not Found'')])
                      ''An error occurred (404) when calling the HeadBucket operation: Not Found'')"
    by (simp add: w_bucket_404_def)
  have h2: "head_bucket w_bucket_403 ''backups'' =
              Some (ClientError (Some [(''Message'', ''Forbidden''), (''Code'', ''403'')])
                      ''An error occurred (403) when calling the HeadBucket operation: Forbidden'')"
    by (simp add: w_bucket_403_def)
  have h3: "head_bucket w_bucket_500 ''backups'' =
              Some (ClientError (Some [(''Code'', ''500'')])
                      ''An error occurred (500) when calling the HeadBucket operation: Internal Error'')"
    by (simp add: w_bucket_500_def)
  have h4: "head_bucket w_bucket_no_error_entry ''backups'' =
              Some (ClientError None ''An error occurred'')"
    by (simp add: w_bucket_no_error_entry_def)
  from head_bucket_client_error[OF c1 h1] head_bucket_client_error[OF c2 h2]
       head_bucket_client_error[OF c3 h3] head_bucket_client_error[OF c4 h4]
  show ?thesis
    by (simp add: test_bucket_404 quoted_def)
qed

text \<open>
  Claim C5: for every file path and every prefix, a successful upload goes to the key
  \<^verbatim>\<open>prefix + basename(file_path)\<close>. The script takes the name from \<^verbatim>\<open>Path(file_path).name\<close>,
  which drops a trailing \<^verbatim>\<open>/\<close> or \<^verbatim>\<open>/.\<close> before it takes the last piece of the path. In
  the run below the path is \<^verbatim>\<open>/tmp/backup/\<close>, whose base name is empty: the upload succeeds
  and goes to \<^verbatim>\<open>daily/backup\<close>, not to \<^verbatim>\<open>daily/\<close>.
\<close>

theorem upload_key_not_basename:
  "snd (upload_to_s3 w_file_config ''/tmp/backup/'' ''daily/'') = Inr True
   \<and> uploaded (fst (upload_to_s3 w_file_config ''/tmp/backup/'' ''daily/'')) =
       [(''/tmp/backup/'', ''daily/backup'')]
   \<and> ''daily/'' @ basename ''/tmp/backup/'' = ''daily/''
   \<and> ''daily/backup'' \<noteq> ''daily/'' @ basename ''/tmp/backup/''"
  by (simp add: upload_file_config_any path_name_def basename_def)

text \<open>
  Claim C5 as amended: for every file path and every prefix, the empty one included, an
  upload that succeeds asked for exactly one object, the file at the path, under the key
  that is the prefix followed by a name read off the path as follows. Where the path
  does not end in \<^verbatim>\<open>/\<close> and the text after its last \<^verbatim>\<open>/\<close> is not \<^verbatim>\<open>.\<close>, the name is that
  text, the base name. In general the path is a directory part (empty, or ending in
  \<^verbatim>\<open>/\<close>), then the name (not empty, not \<^verbatim>\<open>.\<close>, without \<^verbatim>\<open>/\<close>), then any number of trailing
  \<^verbatim>\<open>/\<close> and \<^verbatim>\<open>/.\<close>; a path made of such trailing pieces alone, after an optional leading
  \<^verbatim>\<open>.\<close>, has the empty name.
\<close>

theorem upload_key:
  assumes "snd (upload_to_s3 w file_path s3_prefix) = Inr True"
  shows "(\<not> (\<exists>d. file_path = d @ ''/'') \<and> basename file_path \<noteq> ''.'' \<longrightarrow>
            uploaded (fst (upload_to_s3 w file_path s3_prefix)) =
              [(file_path, s3_prefix @ basename file_path)])
       \<and> (\<forall>d n ps. file_path = d @ n @ concat ps \<and> (d = [] \<or> last d = CHR ''/'')
              \<and> CHR ''/'' \<notin> set n \<and> n \<noteq> [] \<and> n \<noteq> ''.'' \<and> set ps \<subseteq> {''/'', ''/.''} \<longrightarrow>
            uploaded (fst (upload_to_s3 w file_path s3_prefix)) = [(file_path, s3_prefix @ n)])
       \<and> (\<forall>ps. (file_path = concat ps \<or> file_path = ''.'' @ concat ps)
              \<and> set ps \<subseteq> {''/'', ''/.''} \<longrightarrow>
            uploaded (fst (upload_to_s3 w file_path s3_prefix)) = [(file_path, s3_prefix)])"
proof -
  from assms have run:
    "uploaded (fst (upload_to_s3 w file_path s3_prefix)) =
       [(file_path, s3_prefix @ path_name file_path)]"
    by (auto simp: upload_to_s3_def Let_def split: if_splits option.splits exc.splits)
  show ?thesis
  proof (intro conjI allI impI)
    assume "\<not> (\<exists>d. file_path = d @ ''/'') \<and> basename file_path \<noteq> ''.''"
    then have "path_name file_path = basename file_path"
      by (simp add: path_name_basename)
    with run show "uploaded (fst (upload_to_s3 w file_path s3_prefix)) =
                     [(file_path, s3_prefix @ basename file_path)]"
      by simp
  next
    fix d n ps
    assume h: "file_path = d @ n @ concat ps \<and> (d = [] \<or> last d = CHR ''/'')
               \<and> CHR ''/'' \<notin> set n \<and> n \<noteq> [] \<and> n \<noteq> ''.'' \<and> set ps \<subseteq> {''/'', ''/.''}"
    then have "path_name ((d @ n) @ concat ps) = path_name (d @ n)"
      by (intro path_name_trailing) simp
    also from h have "\<dots> = n"
      by (intro path_name_component) simp_all
    finally have "path_name file_path = n"
      using h by simp
    with run show "uploaded (fst (upload_to_s3 w file_path s3_prefix)) = [(file_path, s3_prefix @ n)]"
      by simp
  next
    fix ps
    assume h: "(file_path = concat ps \<or> file_path = ''.'' @ concat ps) \<and> set ps \<subseteq> {''/'', ''/.''}"
    then have "path_name ([] @ concat ps) = path_name []"
      and "path_name (''.'' @ concat ps) = path_name ''.''"
      by (simp_all only: path_name_trailing)
    with h have "path_name file_path = []"
      by (auto simp: path_name_empty path_name_dot)
    with run show "uploaded (fst (upload_to_s3 w file_path s3_prefix)) = [(file_path, s3_prefix)]"
      by simp
  qed
qed

theorem upload_key_witness:
  "snd (upload_to_s3 w_file_config ''/tmp/backup.tar.gz'' ''daily/'') = Inr True
   \<and> uploaded (fst (upload_to_s3 w_file_config ''/tmp/backup.tar.gz'' ''daily/'')) =
       [(''/tmp/backup.tar.gz'', ''daily/backup.tar.gz'')]
   \<and> uploaded (fst (upload_to_s3 w_file_config ''/srv/dump/archive/./'' [])) =
       [(''/srv/dump/archive/./'', ''archive'')]
   \<and> uploaded (fst (upload_to_s3 w_file_config ''./'' ''daily/'')) = [(''./'', ''daily/'')]"
proof -
  have ok: "snd (upload_to_s3 w_file_config p s) = Inr True" for p s
    by (simp add: upload_file_config_any)
  \<comment> \<open>a path that ends in a file name\<close>
  have "\<not> (\<exists>d. ''/tmp/backup.tar.gz'' = d @ ''/'')"
  proof
    assume "\<exists>d. ''/tmp/backup.tar.gz'' = d @ ''/''"
    then obtain d where "''/tmp/backup.tar.gz'' = d @ ''/''" ..
    then have "last ''/tmp/backup.tar.gz'' = last (d @ ''/'')" by (rule arg_cong)
    then show False by simp
  qed
  moreover have b1: "basename ''/tmp/backup.tar.gz'' = ''backup.tar.gz''"
    by (simp add: basename_def)
  ultimately have h1: "\<not> (\<exists>d. ''/tmp/backup.tar.gz'' = d @ ''/'')
                       \<and> basename ''/tmp/backup.tar.gz'' \<noteq> ''.''"
    by simp
  have r1: "uploaded (fst (upload_to_s3 w_file_config ''/tmp/backup.tar.gz'' ''daily/'')) =
              [(''/tmp/backup.tar.gz'', ''daily/'' @ basename ''/tmp/backup.tar.gz'')]"
    by (rule upload_key[OF ok, THEN conjunct1, THEN mp, OF h1])
  \<comment> \<open>a path with trailing pieces\<close>
  have h2: "''/srv/dump/archive/./'' = ''/srv/dump/'' @ ''archive'' @ concat [''/.'', ''/'']
            \<and> (''/srv/dump/'' = [] \<or> last ''/srv/dump/'' = CHR ''/'')
            \<and> CHR ''/'' \<notin> set ''archive'' \<and> ''archive'' \<noteq> [] \<and> ''archive'' \<noteq> ''.''
            \<and> set [''/.'', ''/''] \<subseteq> {''/'', ''/.''}"
    by simp
  have r2: "uploaded (fst (upload_to_s3 w_file_config ''/srv/dump/archive/./'' [])) =
              [(''/srv/dump/archive/./'', [] @ ''archive'')]"
    by (rule upload_key[OF ok, THEN conjunct2, THEN conjunct1, THEN spec, THEN spec, THEN spec,
                          THEN mp, OF h2])
  \<comment> \<open>a path without a name\<close>
  have h3: "(''./'' = concat [''/''] \<or> ''./'' = ''.'' @ concat [''/''])
            \<and> set [''/''] \<subseteq> {''/'', ''/.''}"
    by simp
  have r3: "uploaded (fst (upload_to_s3 w_file_config ''./'' ''daily/'')) = [(''./'', ''daily/'')]"
    by (rule upload_key[OF ok, THEN conjunct2, THEN conjunct2, THEN spec, THEN mp, OF h3])
  from r1 r2 r3 b1 ok show ?thesis by simp
qed

text \<open>
  Claim C6: for every file content, the mapping the loader returns holds exactly the
  entries of the lines of the file, a later line winning over an earlier one with the
  same key, where each line is treated as follows. A line of white space only gives no
  entry. A line whose first character after leading white space is \<^verbatim>\<open>#\<close> gives no entry.
  A line made of a key without \<^verbatim>\<open>=\<close>, an \<^verbatim>\<open>=\<close> and a value, with any white space before the
  key, around the \<^verbatim>\<open>=\<close> and after the value, gives the entry of the key and the value
  without that white space; the value may hold further \<^verbatim>\<open>=\<close>, so the cut is at the first
  one. A line without \<^verbatim>\<open>=\<close> gives its trimmed text as key with the empty value.
\<close>

theorem load_env_file_lines:
  "load_env_file fs p =
     (case fs p of
        None \<Rightarrow> Map.empty
      | Some text \<Rightarrow> map_of (rev (List.map_filter spec_parse_line (file_lines text))))
   \<and> (list_all isspace a \<longrightarrow> spec_parse_line a = None)
   \<and> (list_all isspace a \<longrightarrow> spec_parse_line (a @ CHR ''#'' # r) = None)
   \<and> (list_all isspace a \<and> list_all isspace x \<and> list_all isspace y \<and> list_all isspace b
        \<and> trimmed k \<and> CHR ''='' \<notin> set k \<and> (k \<noteq> [] \<longrightarrow> hd k \<noteq> CHR ''#'') \<and> trimmed v \<longrightarrow>
      spec_parse_line (a @ k @ x @ CHR ''='' # y @ v @ b) = Some (k, v))
   \<and> (list_all isspace a \<and> list_all isspace b
        \<and> t \<noteq> [] \<and> trimmed t \<and> hd t \<noteq> CHR ''#'' \<and> CHR ''='' \<notin> set t \<longrightarrow>
      spec_parse_line (a @ t @ b) = Some (t, []))"
  using load_env_file_spec[of fs p] spec_parse_line_blank[of a] spec_parse_line_comment[of a r]
    spec_parse_line_pair[of a x y b k v] spec_parse_line_bare[of a b t]
  by blast

theorem load_env_file_lines_witness:
  "file_lines padded_text = [''  \<newline>'', ''  # note\<newline>'', '' KEY = some = value \<newline>'', ''FLAG\<newline>'']
   \<and> load_env_file [default_env_path \<mapsto> padded_text] default_env_path =
       [''KEY'' \<mapsto> ''some = value'', ''FLAG'' \<mapsto> []]"
proof -
  have fl: "file_lines padded_text =
              [''  \<newline>'', ''  # note\<newline>'', '' KEY = some = value \<newline>'', ''FLAG\<newline>'']"
    by (simp add: file_lines_def padded_text_def)
  note T = load_env_file_lines[where fs = "[default_env_path \<mapsto> padded_text]"
             and p = default_env_path]
  have l1: "spec_parse_line ''  \<newline>'' = None"
    using T[where a = "''  \<newline>''" and r = "[]" and x = "[]" and y = "[]" and b = "[]"
              and k = "[]" and v = "[]" and t = "[]"]
    by (simp add: isspace_def)
  have l2: "spec_parse_line ''  # note\<newline>'' = None"
    using T[where a = "''  ''" and r = "'' note\<newline>''" and x = "[]" and y = "[]" and b = "[]"
              and k = "[]" and v = "[]" and t = "[]"]
    by (simp add: isspace_def)
  have l3: "spec_parse_line '' KEY = some = value \<newline>'' = Some (''KEY'', ''some = value'')"
    using T[where a = "'' ''" and r = "[]" and x = "'' ''" and y = "'' ''" and b = "'' \<newline>''"
              and k = "''KEY''" and v = "''some = value''" and t = "''x''"]
    by (simp add: isspace_def trimmed_def)
  have l4: "spec_parse_line ''FLAG\<newline>'' = Some (''FLAG'', [])"
    using T[where a = "[]" and r = "[]" and x = "[]" and y = "[]" and b = "''\<newline>''"
              and k = "[]" and v = "[]" and t = "''FLAG''"]
    by (simp add: isspace_def trimmed_def)
  have "load_env_file [default_env_path \<mapsto> padded_text] default_env_path =
          map_of (rev (List.map_filter spec_parse_line (file_lines padded_text)))"
    using T[where a = "[]" and r = "[]" and x = "[]" and y = "[]" and b = "[]"
              and k = "[]" and v = "[]" and t = "[]"]
    by simp
  also have "\<dots> = [''KEY'' \<mapsto> ''some = value'', ''FLAG'' \<mapsto> []]"
    by (simp add: fl l1 l2 l3 l4 List.map_filter_simps)
  finally show ?thesis using fl by simp
qed

text \<open>
  Claim C7: when the configuration file does not exist, \<open>load_env_file\<close> returns the empty
  mapping, and the callers then resolve every key from the environment. The first half
  holds (\<open>load_env_file_missing\<close>), and so does the second for the four keys read with
  \<^verbatim>\<open>or os.getenv(k)\<close>; the region is not read from the environment. In the run below there
  is no file, the environment sets \<^verbatim>\<open>S3_REGION\<close> to \<^verbatim>\<open>eu-west-1\<close>, and both operations build
  the client for \<^verbatim>\<open>ru-central1\<close>.
\<close>

theorem missing_file_region_default:
  "files w_env_config default_env_path = None
   \<and> load_env_file (files w_env_config) default_env_path = Map.empty
   \<and> environ w_env_config ''S3_REGION'' = Some ''eu-west-1''
   \<and> hd (fst (upload_to_s3 w_env_config ''/tmp/backup.tar.gz'' [])) =
       ClientCall ''AK'' ''SK'' (Some ''https://storage.example.net'') ''ru-central1''
   \<and> hd (fst (test_s3_connection w_env_config)) =
       ClientCall ''AK'' ''SK'' (Some ''https://storage.example.net'') ''ru-central1''"
  by (simp add: upload_env_config test_env_config)
     (simp add: w_env_config_def load_env_file_missing)

text \<open>
  Claim C8: the exit status is 0 exactly when the operation the command line selects
  returns \<open>True\<close>, and 1 otherwise: the connectivity test for \<^verbatim>\<open>--test\<close>, else the upload of
  the first argument under the second argument as prefix, or the empty prefix when there
  is none. With no argument the run prints the two usage lines, does nothing else, and
  exits with 1.
\<close>

theorem main_exit_code:
  "(length argv < 2 \<longrightarrow>
      main w argv = ([Print ''Usage: s3_upload.py <file_path> [s3_prefix]'',
                      Print ''       s3_upload.py --test''], 1))
 \<and> (2 \<le> length argv \<and> argv ! 1 = ''--test'' \<longrightarrow>
      snd (main w argv) = (if snd (test_s3_connection w) = Inr True then 0 else 1))
 \<and> (2 \<le> length argv \<and> argv ! 1 \<noteq> ''--test'' \<longrightarrow>
      snd (main w argv) =
        (if snd (upload_to_s3 w (argv ! 1) (if 2 < length argv then argv ! 2 else [])) = Inr True
         then 0 else 1))"
  by (simp add: main_def exit_with_code Let_def)

theorem main_exit_code_witness:
  "main w_file_config [''s3_upload.py''] =
     ([Print ''Usage: s3_upload.py <file_path> [s3_prefix]'',
       Print ''       s3_upload.py --test''], 1)
   \<and> snd (main w_file_config [''s3_upload.py'', ''--test'']) = 0
   \<and> snd (main w_bucket_404 [''s3_upload.py'', ''--test'']) = 1
   \<and> snd (main w_file_config [''s3_upload.py'', ''/tmp/backup.tar.gz'']) = 0
   \<and> snd (main w_file_config [''s3_upload.py'', ''/tmp/backup.tar.gz'', ''daily/'']) = 0
   \<and> snd (main w_upload_fails [''s3_upload.py'', ''/tmp/backup.tar.gz'']) = 1"
  using main_exit_code[of "[''s3_upload.py'']" w_file_config]
        main_exit_code[of "[''s3_upload.py'', ''--test'']" w_file_config]
        main_exit_code[of "[''s3_upload.py'', ''--test'']" w_bucket_404]
        main_exit_code[of "[''s3_upload.py'', ''/tmp/backup.tar.gz'']" w_file_config]
        main_exit_code[of "[''s3_upload.py'', ''/tmp/backup.tar.gz'', ''daily/'']" w_file_config]
        main_exit_code[of "[''s3_upload.py'', ''/tmp/backup.tar.gz'']" w_upload_fails]
  by (simp add: test_file_config test_bucket_404 upload_file_config upload_file_config_no_prefix
        upload_upload_fails)

text \<open>
  Claim C9: a line that, once trimmed, is not empty, does not begin with \<^verbatim>\<open>#\<close> and has no
  \<^verbatim>\<open>=\<close> is not skipped: the loop enters the whole trimmed line as a key with the empty
  string as its value, and that key is in the mapping \<open>load_env_file\<close> returns for any file
  with such a line.
\<close>

theorem line_without_equals:
  assumes "strip l \<noteq> []" and "\<not> startswith (strip l) ''#''" and "CHR ''='' \<notin> set (strip l)"
  shows "env_line l m = m(strip l \<mapsto> [])
       \<and> (fs p = Some text \<and> l \<in> set (file_lines text) \<longrightarrow> load_env_file fs p (strip l) \<noteq> None)"
proof -
  have entry: "env_line l m' = m'(strip l \<mapsto> [])" for m'
    using assms by (simp add: env_line_def Let_def str_partition_absent strip_strip strip_Nil)
  have "strip l \<in> dom (fold env_line (file_lines text) Map.empty)" if "l \<in> set (file_lines text)"
    using that by (rule fold_env_line_mem) (simp add: entry)
  then show ?thesis
    by (auto simp: entry load_env_file_def)
qed

theorem line_without_equals_witness:
  "strip ''  FLAG \<newline>'' = ''FLAG''
   \<and> env_line ''  FLAG \<newline>'' [''A'' \<mapsto> ''1''] = [''A'' \<mapsto> ''1'', ''FLAG'' \<mapsto> []]
   \<and> load_env_file [default_env_path \<mapsto> ''A=1\<newline>  FLAG \<newline>''] default_env_path ''FLAG'' \<noteq> None"
proof -
  have s: "strip ''  FLAG \<newline>'' = ''FLAG''"
    by (simp add: strip_def lstrip_def rstrip_def isspace_def)
  have h1: "strip ''  FLAG \<newline>'' \<noteq> []"
    and h2: "\<not> startswith (strip ''  FLAG \<newline>'') ''#''"
    and h3: "CHR ''='' \<notin> set (strip ''  FLAG \<newline>'')"
    by (simp_all add: s startswith_def)
  have mem: "''  FLAG \<newline>'' \<in> set (file_lines ''A=1\<newline>  FLAG \<newline>'')"
    by (simp add: file_lines_def)
  from line_without_equals[OF h1 h2 h3, of "[''A'' \<mapsto> ''1'']"
         "[default_env_path \<mapsto> ''A=1\<newline>  FLAG \<newline>'']" default_env_path "''A=1\<newline>  FLAG \<newline>''"]
    mem s
  show ?thesis by simp
qed

text \<open>
  Claim C10: whenever the first argument is exactly \<^verbatim>\<open>--test\<close> the program runs the
  connectivity test and never uploads, so that a local file named \<^verbatim>\<open>--test\<close> can never be
  uploaded from the command line. The comparison on line 126 is with the whole argument:
  the same file given as \<^verbatim>\<open>./--test\<close> is not taken for the flag. In the run below it is
  uploaded, under the key \<^verbatim>\<open>--test\<close>, and the exit status is 0.
\<close>

theorem file_named_test_uploaded:
  "main w_file_config [''s3_upload.py'', ''./--test''] =
     ([ClientCall ''AK'' ''SK'' None ''ru-central1'',
       Print ''Uploading --test to s3://backups/--test...'',
       UploadFileCall ''./--test'' ''backups'' ''--test'' [(''StorageClass'', ''STANDARD'')],
       Print (check_mark @ '' Upload successful: s3://backups/--test'')],
      0)"
  by (simp add: main_def upload_file_config_any path_name_def)

text \<open>
  Claim C10 as amended: whenever the first argument is exactly \<^verbatim>\<open>--test\<close>, whatever follows
  it, the run is the run of the connectivity test and contains no upload request, so no
  file is uploaded by passing the bare name \<^verbatim>\<open>--test\<close>. Any other first argument, another
  spelling of the path of such a file included, is handed to \<open>upload_to_s3\<close> as the file
  path.
\<close>

theorem test_flag_never_uploads:
  "fst (main w (prog # ''--test'' # rest)) = fst (test_s3_connection w)
   \<and> filter is_upload (fst (main w (prog # ''--test'' # rest))) = []
   \<and> (arg \<noteq> ''--test'' \<longrightarrow>
        main w (prog # arg # rest) =
          exit_with (upload_to_s3 w arg (case rest of [] \<Rightarrow> [] | s # others \<Rightarrow> s)))"
proof -
  obtain b where "snd (test_s3_connection w) = Inr b"
    using test_s3_connection_returns by blast
  then have "fst (exit_with (test_s3_connection w)) = fst (test_s3_connection w)"
    by (cases "test_s3_connection w") simp
  then show ?thesis
    by (cases rest) (simp_all add: main_def test_s3_connection_no_upload)
qed

theorem test_flag_never_uploads_witness:
  "filter is_upload (fst (main w_file_config [''s3_upload.py'', ''--test'', ''daily/''])) = []
   \<and> filter is_upload (fst (main w_file_config [''s3_upload.py'', ''/srv/--test'', ''daily/''])) =
       [UploadFileCall ''/srv/--test'' ''backups'' ''daily/--test''
          [(''StorageClass'', ''STANDARD'')]]"
proof -
  note T = test_flag_never_uploads[of w_file_config "''s3_upload.py''" "[''daily/'']" "''/srv/--test''"]
  have ne: "''/srv/--test'' \<noteq> ''--test''" by simp
  from T have flag:
    "filter is_upload (fst (main w_file_config [''s3_upload.py'', ''--test'', ''daily/''])) = []"
    by blast
  from T ne
  have "main w_file_config [''s3_upload.py'', ''/srv/--test'', ''daily/''] =
          exit_with (upload_to_s3 w_file_config ''/srv/--test'' ''daily/'')"
    by simp
  then have "filter is_upload (fst (main w_file_config [''s3_upload.py'', ''/srv/--test'', ''daily/''])) =
          [UploadFileCall ''/srv/--test'' ''backups'' ''daily/--test''
             [(''StorageClass'', ''STANDARD'')]]"
    by (simp add: upload_file_config_any path_name_def)
  with flag show ?thesis by (rule conjI)
qed

end
